theory Spec2Isabelle
  imports Complex_Main "HOL-Library.AList"
begin

section \<open>Context store (src/context_manager.py)\<close>

text \<open>
  A message is the dictionary \<^verbatim>\<open>{"role": role, "content": content}\<close> that
  \<^verbatim>\<open>add_message\<close> builds. The dictionary \<^verbatim>\<open>self.contexts\<close> is an association list,
  in insertion order, as a Python \<^verbatim>\<open>dict\<close> keeps its keys.
\<close>

record message =
  role :: string
  content :: string

record ContextManager =
  contexts :: "(int \<times> message list) list"
  max_messages :: int

definition init_ContextManager :: "int \<Rightarrow> ContextManager" where
  "init_ContextManager n = \<lparr>contexts = [], max_messages = n\<rparr>"

text \<open>\<^verbatim>\<open>user_id in self.contexts\<close>\<close>

definition has_context :: "ContextManager \<Rightarrow> int \<Rightarrow> bool" where
  "has_context cm user_id = (map_of (contexts cm) user_id \<noteq> None)"

text \<open>
  \<^verbatim>\<open>get_context\<close>: creates the empty entry when the user has none, and returns the
  entry together with the updated store.
\<close>

definition get_context :: "ContextManager \<Rightarrow> int \<Rightarrow> message list \<times> ContextManager" where
  "get_context cm user_id =
     (case map_of (contexts cm) user_id of
        None \<Rightarrow> ([], cm\<lparr>contexts := AList.update user_id [] (contexts cm)\<rparr>)
      | Some ms \<Rightarrow> (ms, cm))"

text \<open>
  Python's \<^verbatim>\<open>xs[i:]\<close>: a negative start counts from the end and is clamped at the
  front, a start past the end gives the empty list; \<^verbatim>\<open>xs[-0:]\<close> is \<^verbatim>\<open>xs[0:]\<close>, the
  whole list.
\<close>

definition py_slice_from :: "'a list \<Rightarrow> int \<Rightarrow> 'a list" where
  "py_slice_from xs i =
     (if i < 0 then drop (nat (int (length xs) + i)) xs else drop (nat i) xs)"

definition is_system :: "message \<Rightarrow> bool" where
  "is_system msg = (role msg = ''system'')"

text \<open>
  The body of the \<^verbatim>\<open>if len(self.contexts[user_id]) > self.max_messages\<close> block of
  \<^verbatim>\<open>add_message\<close>: the system messages, then the other messages, the latter cut
  by the slice only when there are more than \<^verbatim>\<open>max_messages\<close> of them.
\<close>

definition evict :: "int \<Rightarrow> message list \<Rightarrow> message list" where
  "evict maxm ms =
     (let system_messages = filter is_system ms;
          other_messages = filter (\<lambda>m. \<not> is_system m) ms;
          other_messages' =
            (if int (length other_messages) > maxm
             then py_slice_from other_messages (- (maxm - int (length system_messages)))
             else other_messages)
      in system_messages @ other_messages')"

text \<open>The new value of \<^verbatim>\<open>self.contexts[user_id]\<close> after one \<^verbatim>\<open>add_message\<close>.\<close>

definition appended :: "int \<Rightarrow> message list \<Rightarrow> message \<Rightarrow> message list" where
  "appended maxm ms msg =
     (let ms' = ms @ [msg]
      in if int (length ms') > maxm then evict maxm ms' else ms')"

definition add_message :: "ContextManager \<Rightarrow> int \<Rightarrow> string \<Rightarrow> string \<Rightarrow> ContextManager" where
  "add_message cm user_id r c =
     (let old = (case map_of (contexts cm) user_id of None \<Rightarrow> [] | Some ms \<Rightarrow> ms)
      in cm\<lparr>contexts :=
             AList.update user_id
               (appended (max_messages cm) old \<lparr>role = r, content = c\<rparr>)
               (contexts cm)\<rparr>)"

definition clear_context :: "ContextManager \<Rightarrow> int \<Rightarrow> ContextManager" where
  "clear_context cm user_id =
     (if has_context cm user_id
      then cm\<lparr>contexts := AList.delete user_id (contexts cm)\<rparr>
      else cm)"

definition get_user_ids :: "ContextManager \<Rightarrow> int list" where
  "get_user_ids cm = map fst (contexts cm)"

definition get_context_length :: "ContextManager \<Rightarrow> int \<Rightarrow> nat" where
  "get_context_length cm user_id =
     (case map_of (contexts cm) user_id of None \<Rightarrow> 0 | Some ms \<Rightarrow> length ms)"

text \<open>A run of the store: one constructor per public method.\<close>

datatype store_op =
    Get int
  | Add int string string
  | Clear int
  | ListIds
  | Length int

fun step :: "ContextManager \<Rightarrow> store_op \<Rightarrow> ContextManager" where
  "step cm (Get u) = snd (get_context cm u)"
| "step cm (Add u r c) = add_message cm u r c"
| "step cm (Clear u) = clear_context cm u"
| "step cm ListIds = cm"
| "step cm (Length u) = cm"

definition run :: "ContextManager \<Rightarrow> store_op list \<Rightarrow> ContextManager" where
  "run cm ops = foldl step cm ops"

text \<open>Whether an operation creates an entry for user \<open>u\<close>.\<close>

fun touches :: "int \<Rightarrow> store_op \<Rightarrow> bool" where
  "touches u (Get v) = (u = v)"
| "touches u (Add v r c) = (u = v)"
| "touches u _ = False"


section \<open>Provider selection (src/bot.py, module level)\<close>

text \<open>
  The five module-level variables \<^verbatim>\<open>ollama_client\<close> ... \<^verbatim>\<open>proxyapi_client\<close>, each
  \<^verbatim>\<open>None\<close> or a client object. A client object is truthy: the client classes define
  neither \<^verbatim>\<open>__bool__\<close> nor \<^verbatim>\<open>__len__\<close>.
\<close>

record 'c clients =
  ollama_client :: "'c option"
  openai_client :: "'c option"
  deepseek_client :: "'c option"
  genapi_client :: "'c option"
  proxyapi_client :: "'c option"

text \<open>
  \<^verbatim>\<open>try: x = XClient() ... except Exception: logger.warning(...)\<close>: a constructor that
  raises leaves the variable at \<^verbatim>\<open>None\<close>.
\<close>

definition try_construct :: "'e + 'c \<Rightarrow> 'c option" where
  "try_construct r = (case r of Inl e \<Rightarrow> None | Inr c \<Rightarrow> Some c)"

definition init_clients :: "'e + 'c \<Rightarrow> 'e + 'c \<Rightarrow> 'e + 'c \<Rightarrow> 'e + 'c \<Rightarrow> 'e + 'c \<Rightarrow> 'c clients" where
  "init_clients r1 r2 r3 r4 r5 =
     \<lparr>ollama_client = try_construct r1, openai_client = try_construct r2,
      deepseek_client = try_construct r3, genapi_client = try_construct r4,
      proxyapi_client = try_construct r5\<rparr>"

text \<open>
  The three \<^verbatim>\<open>RuntimeError\<close>s of the selection code, told apart by their messages:
  line 90 (the key is not one of the five), line 93 (the chosen provider could not be
  initialised) and line 111 (no client is available).
\<close>

datatype select_error = UnknownProviderKey | ProviderNotConstructible | NoProviderAvailable

definition provider_map :: "'c clients \<Rightarrow> (string \<times> string \<times> 'c option) list" where
  "provider_map cs =
     [(''ollama'', ''Ollama'', ollama_client cs),
      (''openai'', ''OpenAI'', openai_client cs),
      (''deepseek'', ''DeepSeek'', deepseek_client cs),
      (''genapi'', ''GenAPI'', genapi_client cs),
      (''proxyapi'', ''ProxyAPI'', proxyapi_client cs)]"

text \<open>The \<^verbatim>\<open>for key, name, client in [...]\<close> loop with its \<^verbatim>\<open>break\<close>.\<close>

fun first_constructible :: "(string \<times> string \<times> 'c option) list \<Rightarrow> (string \<times> string \<times> 'c) option" where
  "first_constructible [] = None"
| "first_constructible ((key, name, client) # rest) =
     (case client of
        Some c \<Rightarrow> Some (key, name, c)
      | None \<Rightarrow> first_constructible rest)"

text \<open>
  Lines 75 to 113. In the branch of an explicit key whose client is \<^verbatim>\<open>None\<close>, the
  second \<^verbatim>\<open>raise\<close> (line 93) stands inside the \<^verbatim>\<open>if AI_PROVIDER not in provider_map\<close>
  block, after the first \<^verbatim>\<open>raise\<close>: it is never reached, and a recognized key whose
  client is \<^verbatim>\<open>None\<close> leaves \<^verbatim>\<open>_active_provider\<close> at \<^verbatim>\<open>None\<close> for the check of line 110.
  The list the loop iterates holds the same triples as \<^verbatim>\<open>provider_map\<close>, in the same
  order.
\<close>

definition active_provider :: "string option \<Rightarrow> 'c clients \<Rightarrow> select_error + (string \<times> string \<times> 'c)" where
  "active_provider AI_PROVIDER cs =
     (let selected =
        (case AI_PROVIDER of
           Some k \<Rightarrow>
             (if k \<noteq> [] then
                (case map_of (provider_map cs) k of
                   Some (name, Some c) \<Rightarrow> Inr (Some (k, name, c))
                 | Some (name, None) \<Rightarrow> Inr None
                 | None \<Rightarrow> Inl UnknownProviderKey)
              else Inr (first_constructible (provider_map cs)))
         | None \<Rightarrow> Inr (first_constructible (provider_map cs)))
      in case selected of
           Inl e \<Rightarrow> Inl e
         | Inr None \<Rightarrow> Inl NoProviderAvailable
         | Inr (Some p) \<Rightarrow> Inr p)"

text \<open>
  The priority order as the specification names it, and the client behind a key: one
  of the five module-level variables, read directly.
\<close>

definition priority_order :: "string list" where
  "priority_order = [''ollama'', ''openai'', ''deepseek'', ''genapi'', ''proxyapi'']"

definition client_of :: "'c clients \<Rightarrow> string \<Rightarrow> 'c option" where
  "client_of cs k =
     (if k = ''ollama'' then ollama_client cs
      else if k = ''openai'' then openai_client cs
      else if k = ''deepseek'' then deepseek_client cs
      else if k = ''genapi'' then genapi_client cs
      else if k = ''proxyapi'' then proxyapi_client cs
      else None)"

section \<open>Decoded JSON payloads\<close>

text \<open>
  What \<^verbatim>\<open>resp.json()\<close> returns. A string is a list of characters; a character stands
  for a code point below 256. A dictionary is an association list; its keys are strings.
\<close>

datatype json =
    JNull
  | JBool bool
  | JInt int
  | JFloat real
  | JStr string
  | JList "json list"
  | JDict "(string \<times> json) list"

text \<open>\<^verbatim>\<open>d.get(key)\<close>, with \<^verbatim>\<open>None\<close> for a missing key.\<close>

definition dict_get :: "(string \<times> json) list \<Rightarrow> string \<Rightarrow> json" where
  "dict_get d k = (case map_of d k of None \<Rightarrow> JNull | Some v \<Rightarrow> v)"

text \<open>Truth value of a Python object, as \<^verbatim>\<open>or\<close> and \<^verbatim>\<open>if\<close> test it.\<close>

fun truthy :: "json \<Rightarrow> bool" where
  "truthy JNull = False"
| "truthy (JBool b) = b"
| "truthy (JInt n) = (n \<noteq> 0)"
| "truthy (JFloat r) = (r \<noteq> 0)"
| "truthy (JStr s) = (s \<noteq> [])"
| "truthy (JList xs) = (xs \<noteq> [])"
| "truthy (JDict d) = (d \<noteq> [])"

definition py_or :: "json \<Rightarrow> json \<Rightarrow> json" where
  "py_or a b = (if truthy a then a else b)"

text \<open>
  \<^verbatim>\<open>str.isspace\<close> on the code points below 256: tab to carriage return, the four
  separators 28 to 31, the space, NEL (133) and the no-break space (160).
\<close>

definition is_space :: "char \<Rightarrow> bool" where
  "is_space c =
     (let n = (of_char c :: nat)
      in (9 \<le> n \<and> n \<le> 13) \<or> (28 \<le> n \<and> n \<le> 32) \<or> n = 133 \<or> n = 160)"

definition strip :: "string \<Rightarrow> string" where
  "strip s = rev (dropWhile is_space (rev (dropWhile is_space s)))"

text \<open>\<^verbatim>\<open>s.strip() or None\<close>\<close>

definition strip_or_none :: "string \<Rightarrow> string option" where
  "strip_or_none s = (let t = strip s in if t = [] then None else Some t)"

text \<open>\<^verbatim>\<open>sep.join(xs)\<close>\<close>

fun join :: "string \<Rightarrow> string list \<Rightarrow> string" where
  "join sep [] = []"
| "join sep [x] = x"
| "join sep (x # y # ys) = x @ sep @ join sep (y # ys)"

text \<open>
  \<^verbatim>\<open>str(x)\<close>: a string is itself; the text of any other value is the parameter
  \<open>str_of\<close> (Python's \<^verbatim>\<open>repr\<close> of numbers, lists and dictionaries is not part of the
  repository).
\<close>

definition py_str :: "(json \<Rightarrow> string) \<Rightarrow> json \<Rightarrow> string" where
  "py_str str_of x = (case x of JStr s \<Rightarrow> s | _ \<Rightarrow> str_of x)"

text \<open>
  Control flow of a loop body or a block that may \<^verbatim>\<open>return\<close>: \<open>Returned v\<close> leaves
  the function with \<open>v\<close>, \<open>Fallthrough\<close> goes on with the next statement.
\<close>

datatype 'a flow = Returned 'a | Fallthrough


section \<open>Response extractor (src/genapi_client.py, \<^verbatim>\<open>_extract_text_from_output\<close>)\<close>

text \<open>
  The loop that the source writes out four times:
  \<^verbatim>\<open>for part in parts: if isinstance(part, dict) and part.get("type") == "text":
     t = part.get("text"); if isinstance(t, str): return t.strip() or None\<close>
\<close>

fun first_text_part :: "json list \<Rightarrow> string option flow" where
  "first_text_part [] = Fallthrough"
| "first_text_part (part # rest) =
     (case part of
        JDict p \<Rightarrow>
          (if dict_get p ''type'' = JStr ''text'' then
             (case dict_get p ''text'' of
                JStr t \<Rightarrow> Returned (strip_or_none t)
              | _ \<Rightarrow> first_text_part rest)
           else first_text_part rest)
      | _ \<Rightarrow> first_text_part rest)"

text \<open>\<^verbatim>\<open>msg = d.get("message"); if isinstance(msg, dict): c = msg.get("content"); if isinstance(c, str): return ...\<close>\<close>

definition message_content :: "(string \<times> json) list \<Rightarrow> string option flow" where
  "message_content d =
     (case dict_get d ''message'' of
        JDict msg \<Rightarrow>
          (case dict_get msg ''content'' of
             JStr c \<Rightarrow> Returned (strip_or_none c)
           | _ \<Rightarrow> Fallthrough)
      | _ \<Rightarrow> Fallthrough)"

text \<open>The body of the first loop over a list of items, for an item that is a dictionary.\<close>

definition first_pass_item :: "(string \<times> json) list \<Rightarrow> string option flow" where
  "first_pass_item item =
     (case message_content item of
        Returned r \<Rightarrow> Returned r
      | Fallthrough \<Rightarrow>
          (case py_or (dict_get item ''text'') (dict_get item ''content'') of
             JStr s \<Rightarrow> Returned (strip_or_none s)
           | JList parts \<Rightarrow> first_text_part parts
           | _ \<Rightarrow> Fallthrough))"

fun first_pass :: "json list \<Rightarrow> string option flow" where
  "first_pass [] = Fallthrough"
| "first_pass (item # rest) =
     (case item of
        JDict d \<Rightarrow>
          (case first_pass_item d of
             Returned r \<Rightarrow> Returned r
           | Fallthrough \<Rightarrow> first_pass rest)
      | _ \<Rightarrow> first_pass rest)"

text \<open>The second loop: items with \<^verbatim>\<open>role == "assistant"\<close>.\<close>

fun second_pass :: "json list \<Rightarrow> string option flow" where
  "second_pass [] = Fallthrough"
| "second_pass (item # rest) =
     (case item of
        JDict d \<Rightarrow>
          (if dict_get d ''role'' = JStr ''assistant'' then
             (case dict_get d ''content'' of
                JStr c \<Rightarrow> Returned (strip_or_none c)
              | JList parts \<Rightarrow>
                  (case first_text_part parts of
                     Returned r \<Rightarrow> Returned r
                   | Fallthrough \<Rightarrow> second_pass rest)
              | _ \<Rightarrow> second_pass rest)
           else second_pass rest)
      | _ \<Rightarrow> second_pass rest)"

definition extract_from_list :: "(json \<Rightarrow> string) \<Rightarrow> json list \<Rightarrow> string option" where
  "extract_from_list str_of output =
     (case output of
        JStr s # _ \<Rightarrow> strip_or_none (join '' '' (map (py_str str_of) output))
      | _ \<Rightarrow>
          (case first_pass output of
             Returned r \<Rightarrow> r
           | Fallthrough \<Rightarrow>
               (case second_pass output of
                  Returned r \<Rightarrow> r
                | Fallthrough \<Rightarrow> None)))"

text \<open>\<^verbatim>\<open>choices[0].message.content\<close> of a dictionary, when the shape is there.\<close>

definition choices_content :: "(string \<times> json) list \<Rightarrow> string option flow" where
  "choices_content output =
     (case dict_get output ''choices'' of
        JList (JDict c0 # _) \<Rightarrow> message_content c0
      | _ \<Rightarrow> Fallthrough)"

definition extract_from_dict :: "(string \<times> json) list \<Rightarrow> string option" where
  "extract_from_dict output =
     (case py_or (py_or (dict_get output ''text'') (dict_get output ''content''))
                 (dict_get output ''message'') of
        JStr s \<Rightarrow> strip_or_none s
      | _ \<Rightarrow>
          (case choices_content output of
             Returned r \<Rightarrow> r
           | Fallthrough \<Rightarrow>
               (case dict_get output ''content'' of
                  JList parts \<Rightarrow>
                    (case first_text_part parts of
                       Returned r \<Rightarrow> r
                     | Fallthrough \<Rightarrow> None)
                | _ \<Rightarrow> None)))"

definition extract_text_from_output :: "(json \<Rightarrow> string) \<Rightarrow> json \<Rightarrow> string option" where
  "extract_text_from_output str_of output =
     (case output of
        JNull \<Rightarrow> None
      | JStr s \<Rightarrow> strip_or_none s
      | JList xs \<Rightarrow> extract_from_list str_of xs
      | JDict d \<Rightarrow> extract_from_dict d
      | _ \<Rightarrow> None)"

section \<open>The job client (src/genapi_client.py, \<^verbatim>\<open>GenAPIClient\<close>)\<close>

text \<open>
  Every \<^verbatim>\<open>return None\<close> of the provider clients logs a message of its own; a
  \<open>failure\<close> names the place. The caller receives \<^verbatim>\<open>None\<close> for each of them.
\<close>

datatype failure =
    EndpointNotFound
  | AuthFailure
  | InsufficientBalance
  | RateLimited
  | ApiError
  | ExtractionFailure
  | JobFailed
  | MissingRequestId
  | PollTimeout
  | Timeout
  | ConnectionFailure
  | RequestFailure
  | ParseFailure
  | UnexpectedError

text \<open>What the caller of \<^verbatim>\<open>generate_response\<close> receives: the text, or \<^verbatim>\<open>None\<close>.\<close>

definition to_optional :: "failure + 'a \<Rightarrow> 'a option" where
  "to_optional r = (case r of Inl f \<Rightarrow> None | Inr v \<Rightarrow> Some v)"

text \<open>
  The exceptions of the HTTP library, by the first \<^verbatim>\<open>except\<close> clause that matches them:
  \<^verbatim>\<open>httpx.TimeoutException\<close>, any other \<^verbatim>\<open>httpx.RequestError\<close>, any other subclass of
  \<^verbatim>\<open>Exception\<close>. One HTTP call raises, or answers with a status code and a body;
  the body is \<open>None\<close> when \<^verbatim>\<open>resp.json()\<close> raises.
\<close>

datatype httpx_exn = TimeoutException | RequestError | OtherException

datatype http_result = Raises httpx_exn | Response int "json option"

text \<open>
  The world around one call: the answer to the POST, the answers to the GETs of a
  request id (by the number of the GET), and how long each took, in clock ticks.
\<close>

record genapi_env =
  post_result :: http_result
  post_latency :: nat
  get_result :: "json \<Rightarrow> nat \<Rightarrow> http_result"
  get_latency :: "nat \<Rightarrow> nat"

record GenAPIClient =
  poll_interval :: int
  poll_max_wait :: int

text \<open>
  \<^verbatim>\<open>for key in ("result", "output", "full_response", "response")\<close>: the first field
  that yields a text.
\<close>

fun scan_fields :: "(json \<Rightarrow> string) \<Rightarrow> (string \<times> json) list \<Rightarrow> string list \<Rightarrow> string option" where
  "scan_fields str_of data [] = None"
| "scan_fields str_of data (key # keys) =
     (case extract_text_from_output str_of (dict_get data key) of
        Some text \<Rightarrow> Some text
      | None \<Rightarrow> scan_fields str_of data keys)"

text \<open>
  The \<^verbatim>\<open>try\<close> block of one iteration of the poll loop, with its \<^verbatim>\<open>except Exception\<close>:
  an exception of the GET, of \<^verbatim>\<open>resp.json()\<close> or of \<^verbatim>\<open>data.get\<close> (a body that is not a
  dictionary) is logged and the loop goes on.
\<close>

definition poll_response :: "(json \<Rightarrow> string) \<Rightarrow> http_result \<Rightarrow> (failure + string) flow" where
  "poll_response str_of r =
     (case r of
        Raises e \<Rightarrow> Fallthrough
      | Response code body \<Rightarrow>
          (if code \<noteq> 200 then Returned (Inl ApiError)
           else
             (case body of
                Some (JDict data) \<Rightarrow>
                  (let status = dict_get data ''status'' in
                   if status = JStr ''success'' then
                     (case scan_fields str_of data
                             [''result'', ''output'', ''full_response'', ''response''] of
                        Some text \<Rightarrow> Returned (Inr text)
                      | None \<Rightarrow> Returned (Inl ExtractionFailure))
                   else if status = JStr ''failed'' then Returned (Inl JobFailed)
                   else Fallthrough)
              | _ \<Rightarrow> Fallthrough)))"

text \<open>
  A poll answer that does not end the loop: an exception, or status code 200 with a
  body whose \<^verbatim>\<open>status\<close> is neither \<^verbatim>\<open>success\<close> nor \<^verbatim>\<open>failed\<close> (or that is no
  dictionary at all).
\<close>

definition non_terminal :: "http_result \<Rightarrow> bool" where
  "non_terminal r =
     (case r of
        Raises e \<Rightarrow> True
      | Response code body \<Rightarrow>
          code = 200 \<and>
          (case body of
             Some (JDict data) \<Rightarrow>
               dict_get data ''status'' \<noteq> JStr ''success'' \<and> dict_get data ''status'' \<noteq> JStr ''failed''
           | _ \<Rightarrow> True))"

text \<open>\<^verbatim>\<open>time.sleep\<close> raises \<^verbatim>\<open>ValueError\<close> for a negative length.\<close>

datatype sleep_error = ValueError

text \<open>
  The \<^verbatim>\<open>while time.monotonic() < deadline\<close> loop. \<open>now\<close> is the clock, \<open>i\<close> the number
  of GETs made so far. \<open>issued\<close> is not a variable of the source: it records the clock
  at each GET, for the statements about the deadline. The loop need not end (an
  interval of zero and a clock that stands still), hence the option.
\<close>

partial_function (option) poll_loop ::
  "(json \<Rightarrow> string) \<Rightarrow> int \<Rightarrow> (nat \<Rightarrow> http_result) \<Rightarrow> (nat \<Rightarrow> nat) \<Rightarrow> int \<Rightarrow> nat \<Rightarrow> int \<Rightarrow> int list
     \<Rightarrow> (int list \<times> (sleep_error + failure + string)) option"
where
  "poll_loop str_of interval get lat deadline i now issued =
     (if now < deadline then
        (case poll_response str_of (get i) of
           Returned r \<Rightarrow> Some (issued @ [now], Inr r)
         | Fallthrough \<Rightarrow>
             (if interval < 0 then Some (issued @ [now], Inl ValueError)
              else poll_loop str_of interval get lat deadline (Suc i)
                     (now + int (lat i) + interval) (issued @ [now])))
      else Some (issued, Inr (Inl PollTimeout)))"

text \<open>
  \<^verbatim>\<open>_poll_until_done\<close>, entered at clock \<open>t0\<close>: the first sleep, the deadline read
  after it, the loop.
\<close>

definition poll_until_done ::
  "(json \<Rightarrow> string) \<Rightarrow> GenAPIClient \<Rightarrow> genapi_env \<Rightarrow> json \<Rightarrow> int
     \<Rightarrow> (int list \<times> (sleep_error + failure + string)) option" where
  "poll_until_done str_of client env request_id t0 =
     (if poll_interval client < 0 then Some ([], Inl ValueError)
      else
        (let t1 = t0 + poll_interval client;
             deadline = t1 + poll_max_wait client
         in poll_loop str_of (poll_interval client) (get_result env request_id)
              (get_latency env) deadline 0 t1 []))"

text \<open>
  \<^verbatim>\<open>generate_response\<close>, entered at clock \<open>t0\<close>. The \<^verbatim>\<open>try\<close> block gives a result or
  an exception; \<^verbatim>\<open>resp.json()\<close> that raises, \<^verbatim>\<open>data.get\<close> on a body that is not a
  dictionary and \<^verbatim>\<open>time.sleep\<close> with a negative interval are exceptions of the third
  kind.
\<close>

definition genapi_try ::
  "(json \<Rightarrow> string) \<Rightarrow> GenAPIClient \<Rightarrow> genapi_env \<Rightarrow> int \<Rightarrow> (httpx_exn + failure + string) option" where
  "genapi_try str_of client env t0 =
     (case post_result env of
        Raises e \<Rightarrow> Some (Inl e)
      | Response code body \<Rightarrow>
          (if code = 404 then Some (Inr (Inl EndpointNotFound))
           else if code = 401 then Some (Inr (Inl AuthFailure))
           else if code = 402 then Some (Inr (Inl InsufficientBalance))
           else if code \<ge> 400 then Some (Inr (Inl ApiError))
           else
             (case body of
                Some (JDict data) \<Rightarrow>
                  (let status = dict_get data ''status'' in
                   if status = JStr ''success'' then
                     (case extract_text_from_output str_of (dict_get data ''output'') of
                        Some text \<Rightarrow> Some (Inr (Inr text))
                      | None \<Rightarrow> Some (Inr (Inl ExtractionFailure)))
                   else if status = JStr ''failed'' then Some (Inr (Inl JobFailed))
                   else
                     (let request_id = dict_get data ''request_id'' in
                      if request_id = JNull then Some (Inr (Inl MissingRequestId))
                      else
                        (case poll_until_done str_of client env request_id
                                (t0 + int (post_latency env)) of
                           None \<Rightarrow> None
                         | Some (issued, Inl ValueError) \<Rightarrow> Some (Inl OtherException)
                         | Some (issued, Inr r) \<Rightarrow> Some (Inr r))))
              | _ \<Rightarrow> Some (Inl OtherException))))"

text \<open>The three \<^verbatim>\<open>except\<close> clauses of \<^verbatim>\<open>generate_response\<close>.\<close>

fun genapi_except :: "httpx_exn \<Rightarrow> failure" where
  "genapi_except TimeoutException = Timeout"
| "genapi_except RequestError = RequestFailure"
| "genapi_except OtherException = UnexpectedError"

definition genapi_generate_response ::
  "(json \<Rightarrow> string) \<Rightarrow> GenAPIClient \<Rightarrow> genapi_env \<Rightarrow> int \<Rightarrow> (failure + string) option" where
  "genapi_generate_response str_of client env t0 =
     (case genapi_try str_of client env t0 of
        None \<Rightarrow> None
      | Some (Inl e) \<Rightarrow> Some (Inl (genapi_except e))
      | Some (Inr r) \<Rightarrow> Some r)"




section \<open>The synchronous clients\<close>

text \<open>
  A call either hands a value back to its caller or lets an exception through.
  Only subclasses of \<^verbatim>\<open>Exception\<close> are modelled: the failures of a request.
\<close>

datatype 'a outcome = Propagated | Result 'a

subsection \<open>src/ollama_client.py\<close>

text \<open>
  What \<^verbatim>\<open>requests.post\<close> does: it raises \<^verbatim>\<open>Timeout\<close>, \<^verbatim>\<open>ConnectionError\<close>, another
  \<^verbatim>\<open>RequestException\<close> or an exception outside the library's hierarchy, or it answers
  with a status code and a body (\<open>None\<close> when \<^verbatim>\<open>response.json()\<close> raises). The
  library raises \<^verbatim>\<open>HTTPError\<close> from \<^verbatim>\<open>raise_for_status\<close> only.
\<close>

datatype post_exn = PostTimeout | PostConnectionError | PostRequestException | PostOtherException

datatype ollama_post = PostRaises post_exn | PostResponse int "json option"

text \<open>The classes the \<^verbatim>\<open>except\<close> clauses of the client tell apart, in their order.\<close>

datatype requests_exn =
    RequestsTimeout
  | RequestsConnectionError
  | RequestsHTTPError
  | RequestsRequestException
  | KeyError
  | OtherError

fun exn_of_post :: "post_exn \<Rightarrow> requests_exn" where
  "exn_of_post PostTimeout = RequestsTimeout"
| "exn_of_post PostConnectionError = RequestsConnectionError"
| "exn_of_post PostRequestException = RequestsRequestException"
| "exn_of_post PostOtherException = OtherError"

text \<open>
  The \<^verbatim>\<open>try\<close> block. An exception comes with two flags: whether the local variables
  \<^verbatim>\<open>response\<close> and \<^verbatim>\<open>result\<close> were bound when it was raised (two \<^verbatim>\<open>except\<close> clauses
  read them). \<^verbatim>\<open>raise_for_status\<close> raises for the codes 400 to 599. A body that does
  not decode raises the library's \<^verbatim>\<open>JSONDecodeError\<close>, a \<^verbatim>\<open>RequestException\<close>. A decoded
  body that is not a dictionary, or whose \<^verbatim>\<open>message\<close> is not one, raises
  \<^verbatim>\<open>AttributeError\<close> at \<^verbatim>\<open>.get\<close>. The value returned is whatever stands under
  \<^verbatim>\<open>message.content\<close>.
\<close>

definition ollama_try :: "ollama_post \<Rightarrow> (requests_exn \<times> bool \<times> bool) + json" where
  "ollama_try p =
     (case p of
        PostRaises e \<Rightarrow> Inl (exn_of_post e, False, False)
      | PostResponse code body \<Rightarrow>
          (if 400 \<le> code \<and> code < 600 then Inl (RequestsHTTPError, True, False)
           else
             (case body of
                None \<Rightarrow> Inl (RequestsRequestException, True, False)
              | Some (JDict result) \<Rightarrow>
                  (case (case map_of result ''message'' of None \<Rightarrow> JDict [] | Some v \<Rightarrow> v) of
                     JDict msg \<Rightarrow> Inr (dict_get msg ''content'')
                   | _ \<Rightarrow> Inl (OtherError, True, True))
              | Some _ \<Rightarrow> Inl (OtherError, True, True))))"

text \<open>
  The \<^verbatim>\<open>except\<close> clauses. The clause for \<^verbatim>\<open>HTTPError\<close> formats \<^verbatim>\<open>response\<close> into its
  message and the clause for \<^verbatim>\<open>KeyError\<close> formats \<^verbatim>\<open>result\<close>: with the variable
  unbound the clause itself raises \<^verbatim>\<open>UnboundLocalError\<close>, which leaves the function.
\<close>

fun ollama_except :: "requests_exn \<times> bool \<times> bool \<Rightarrow> failure outcome" where
  "ollama_except (RequestsTimeout, response_bound, result_bound) = Result Timeout"
| "ollama_except (RequestsConnectionError, response_bound, result_bound) = Result ConnectionFailure"
| "ollama_except (RequestsHTTPError, response_bound, result_bound) =
     (if response_bound then Result ApiError else Propagated)"
| "ollama_except (RequestsRequestException, response_bound, result_bound) = Result RequestFailure"
| "ollama_except (KeyError, response_bound, result_bound) =
     (if result_bound then Result ParseFailure else Propagated)"
| "ollama_except (OtherError, response_bound, result_bound) = Result UnexpectedError"

definition ollama_generate_response :: "ollama_post \<Rightarrow> (failure + json) outcome" where
  "ollama_generate_response p =
     (case ollama_try p of
        Inr v \<Rightarrow> Result (Inr v)
      | Inl x \<Rightarrow>
          (case ollama_except x of
             Propagated \<Rightarrow> Propagated
           | Result f \<Rightarrow> Result (Inl f)))"

subsection \<open>src/openai_client.py, src/deepseek_client.py, src/proxyapi_client.py\<close>

text \<open>
  \<^verbatim>\<open>self.client.chat.completions.create(**params)\<close> raises (the classes by the first
  \<^verbatim>\<open>except\<close> clause that matches) or answers with its list of choices, each with the
  \<^verbatim>\<open>message.content\<close> it carries, a string or \<^verbatim>\<open>None\<close>.
\<close>

datatype openai_exn = AuthenticationError | RateLimitError | APIError | OtherCreateError

datatype completion = CreateRaises openai_exn | Completion "string option list"

text \<open>The \<^verbatim>\<open>try\<close> block: \<^verbatim>\<open>response.choices[0]\<close> raises \<^verbatim>\<open>IndexError\<close> on no choice.\<close>

definition completion_try :: "completion \<Rightarrow> openai_exn + string option" where
  "completion_try r =
     (case r of
        CreateRaises e \<Rightarrow> Inl e
      | Completion [] \<Rightarrow> Inl OtherCreateError
      | Completion (c # _) \<Rightarrow> Inr c)"

fun completion_except :: "openai_exn \<Rightarrow> failure" where
  "completion_except AuthenticationError = AuthFailure"
| "completion_except RateLimitError = RateLimited"
| "completion_except APIError = ApiError"
| "completion_except OtherCreateError = UnexpectedError"

definition openai_generate_response :: "completion \<Rightarrow> (failure + string option) outcome" where
  "openai_generate_response r =
     (case completion_try r of Inl e \<Rightarrow> Result (Inl (completion_except e)) | Inr c \<Rightarrow> Result (Inr c))"

definition deepseek_generate_response :: "completion \<Rightarrow> (failure + string option) outcome" where
  "deepseek_generate_response r =
     (case completion_try r of Inl e \<Rightarrow> Result (Inl (completion_except e)) | Inr c \<Rightarrow> Result (Inr c))"

definition proxyapi_generate_response :: "completion \<Rightarrow> (failure + string option) outcome" where
  "proxyapi_generate_response r =
     (case completion_try r of Inl e \<Rightarrow> Result (Inl (completion_except e)) | Inr c \<Rightarrow> Result (Inr c))"


section \<open>Properties of the context store\<close>

lemma get_context_after_add:
  "fst (get_context (add_message cm u r c) u) =
     appended (max_messages cm) (fst (get_context cm u)) \<lparr>role = r, content = c\<rparr>"
  by (simp add: add_message_def get_context_def Let_def update_conv' split: option.splits)

lemma set_py_slice_from: "set (py_slice_from xs i) \<subseteq> set xs"
  by (auto simp: py_slice_from_def dest: in_set_dropD)

lemma filter_system_py_slice:
  "filter is_system (py_slice_from (filter (\<lambda>m. \<not> is_system m) ms) i) = []"
  using set_py_slice_from [of "filter (\<lambda>m. \<not> is_system m) ms" i]
  by (auto simp: filter_empty_conv)

lemma filter_other_py_slice:
  "filter (\<lambda>m. \<not> is_system m) (py_slice_from (filter (\<lambda>m. \<not> is_system m) ms) i) =
     py_slice_from (filter (\<lambda>m. \<not> is_system m) ms) i"
  using set_py_slice_from [of "filter (\<lambda>m. \<not> is_system m) ms" i]
  by (auto simp: filter_id_conv)

lemma evict_system: "filter is_system (evict maxm ms) = filter is_system ms"
  by (simp add: evict_def Let_def filter_system_py_slice)

lemma evict_partitioned:
  "evict maxm ms =
     filter is_system (evict maxm ms) @ filter (\<lambda>m. \<not> is_system m) (evict maxm ms)"
  by (simp add: evict_def Let_def filter_system_py_slice filter_other_py_slice)

lemma appended_system:
  "filter is_system (appended maxm ms msg) = filter is_system (ms @ [msg])"
  by (simp add: appended_def Let_def evict_system del: filter_append)

text \<open>
  Where the slice does run with a positive count (more than \<^verbatim>\<open>max_messages\<close> other
  messages, fewer than \<^verbatim>\<open>max_messages\<close> system messages), the result is the system
  messages and the most recent other messages, \<^verbatim>\<open>max_messages\<close> in all; and a context
  without system messages stays within the bound.
\<close>

lemma evict_keeps_recent:
  assumes "int (length (filter (\<lambda>m. \<not> is_system m) ms)) > maxm"
    and "int (length (filter is_system ms)) < maxm"
  shows "evict maxm ms =
           filter is_system ms @
           drop (length (filter (\<lambda>m. \<not> is_system m) ms) - nat (maxm - int (length (filter is_system ms))))
             (filter (\<lambda>m. \<not> is_system m) ms)"
    and "int (length (evict maxm ms)) = maxm"
proof -
  let ?sys = "filter is_system ms" and ?oth = "filter (\<lambda>m. \<not> is_system m) ms"
  let ?k = "maxm - int (length ?sys)"
  from assms have k: "0 < ?k" "?k < int (length ?oth)" by simp_all
  then have idx: "nat (int (length ?oth) + - ?k) = length ?oth - nat ?k"
    by linarith
  from k have "- ?k < 0" by simp
  then have "py_slice_from ?oth (- ?k) = drop (nat (int (length ?oth) + - ?k)) ?oth"
    unfolding py_slice_from_def by (rule if_P)
  with idx have sl: "py_slice_from ?oth (- ?k) = drop (length ?oth - nat ?k) ?oth"
    by (simp only:)
  have ev: "evict maxm ms = ?sys @ py_slice_from ?oth (- ?k)"
    using assms(1) by (simp add: evict_def Let_def)
  with sl show eq: "evict maxm ms = ?sys @ drop (length ?oth - nat ?k) ?oth"
    by (simp only:)
  have "length (evict maxm ms) = length ?sys + (length ?oth - (length ?oth - nat ?k))"
    by (simp only: eq length_append length_drop)
  with k show "int (length (evict maxm ms)) = maxm"
    by linarith
qed

lemma appended_bound_without_system:
  assumes "filter is_system (ms @ [msg]) = []" and "1 \<le> maxm"
  shows "int (length (appended maxm ms msg)) \<le> maxm"
proof (cases "int (length (ms @ [msg])) > maxm")
  case False
  then show ?thesis by (simp add: appended_def Let_def)
next
  case True
  from assms(1) have "\<forall>m \<in> set (ms @ [msg]). \<not> is_system m"
    by (simp only: filter_empty_conv)
  then have all: "filter (\<lambda>m. \<not> is_system m) (ms @ [msg]) = ms @ [msg]"
    by (simp only: filter_id_conv)
  with True have o: "int (length (filter (\<lambda>m. \<not> is_system m) (ms @ [msg]))) > maxm" by simp
  from assms have s: "int (length (filter is_system (ms @ [msg]))) < maxm" by simp
  from evict_keeps_recent(2) [OF o s] True show ?thesis
    by (simp add: appended_def Let_def)
qed

text \<open>
  Claim C1 says that after every \<^verbatim>\<open>add_message\<close> the user's context holds at most
  \<^verbatim>\<open>max_messages\<close> messages. The code cuts the other messages only when there are more
  than \<^verbatim>\<open>max_messages\<close> of them, whatever the number of system messages: with
  \<^verbatim>\<open>max_messages = 2\<close>, a system message and two user messages leave a context of
  length 3.
\<close>

theorem add_message_exceeds_max_messages:
  "get_context_length
     (run (init_ContextManager 2)
        [Add 1 ''system'' ''s'', Add 1 ''user'' ''a'', Add 1 ''user'' ''b'']) 1 = 3
   \<and> max_messages
     (run (init_ContextManager 2)
        [Add 1 ''system'' ''s'', Add 1 ''user'' ''a'', Add 1 ''user'' ''b'']) = 2"
  by (simp add: run_def init_ContextManager_def add_message_def appended_def evict_def
        is_system_def get_context_length_def py_slice_from_def Let_def)

text \<open>
  Claim C2 says that an append that pushes the context over \<^verbatim>\<open>max_messages\<close> keeps the
  system messages and the \<^verbatim>\<open>max_messages - count(system)\<close> most recent other
  messages. With \<^verbatim>\<open>max_messages = 2\<close> and the context of one system and one user
  message, appending a user message keeps both user messages, where the claim keeps
  one.
\<close>

theorem eviction_keeps_more_than_capacity:
  "appended 2 [\<lparr>role = ''system'', content = ''s''\<rparr>, \<lparr>role = ''user'', content = ''a''\<rparr>]
      \<lparr>role = ''user'', content = ''b''\<rparr> =
     [\<lparr>role = ''system'', content = ''s''\<rparr>, \<lparr>role = ''user'', content = ''a''\<rparr>,
      \<lparr>role = ''user'', content = ''b''\<rparr>]"
  by (simp add: appended_def evict_def is_system_def py_slice_from_def Let_def)

text \<open>
  Claim C10: \<^verbatim>\<open>add_message\<close> never discards a system message, wherever it stands: the
  system messages of the new context are those of the old context and of the new
  message, in order. And whenever the eviction block runs (the context with the new
  message is longer than \<^verbatim>\<open>max_messages\<close>), the new context is its system messages
  followed by its other messages.
\<close>

theorem system_messages_kept_and_moved_to_front:
  "filter is_system (fst (get_context (add_message cm u r c) u)) =
     filter is_system (fst (get_context cm u) @ [\<lparr>role = r, content = c\<rparr>])
   \<and> (int (length (fst (get_context cm u) @ [\<lparr>role = r, content = c\<rparr>])) > max_messages cm \<longrightarrow>
        fst (get_context (add_message cm u r c) u) =
          filter is_system (fst (get_context (add_message cm u r c) u)) @
          filter (\<lambda>m. \<not> is_system m) (fst (get_context (add_message cm u r c) u)))"
proof -
  let ?old = "fst (get_context cm u)"
  let ?msg = "\<lparr>role = r, content = c\<rparr>"
  have new: "fst (get_context (add_message cm u r c) u) = appended (max_messages cm) ?old ?msg"
    by (rule get_context_after_add)
  have kept: "filter is_system (appended (max_messages cm) ?old ?msg) = filter is_system (?old @ [?msg])"
    by (rule appended_system)
  have part: "appended (max_messages cm) ?old ?msg =
        filter is_system (appended (max_messages cm) ?old ?msg) @
        filter (\<lambda>m. \<not> is_system m) (appended (max_messages cm) ?old ?msg)"
    if "int (length (?old @ [?msg])) > max_messages cm"
  proof -
    from that have "appended (max_messages cm) ?old ?msg = evict (max_messages cm) (?old @ [?msg])"
      by (simp add: appended_def Let_def)
    then show ?thesis using evict_partitioned [of "max_messages cm" "?old @ [?msg]"] by simp
  qed
  show ?thesis using new kept part by simp
qed

text \<open>
  A user message, then a system message, then a user message under \<^verbatim>\<open>max_messages = 2\<close>:
  the system message moves to the front.
\<close>

theorem system_messages_kept_and_moved_to_front_witness:
  "int (length (fst (get_context
       \<lparr>contexts = [(1, [\<lparr>role = ''user'', content = ''a''\<rparr>, \<lparr>role = ''system'', content = ''s''\<rparr>])],
        max_messages = 2\<rparr> 1) @ [\<lparr>role = ''user'', content = ''b''\<rparr>])) > 2
   \<and> fst (get_context (add_message
       \<lparr>contexts = [(1, [\<lparr>role = ''user'', content = ''a''\<rparr>, \<lparr>role = ''system'', content = ''s''\<rparr>])],
        max_messages = 2\<rparr> 1 ''user'' ''b'') 1)
      = [\<lparr>role = ''system'', content = ''s''\<rparr>, \<lparr>role = ''user'', content = ''a''\<rparr>,
         \<lparr>role = ''user'', content = ''b''\<rparr>]"
  using system_messages_kept_and_moved_to_front
    [of "\<lparr>contexts = [(1, [\<lparr>role = ''user'', content = ''a''\<rparr>, \<lparr>role = ''system'', content = ''s''\<rparr>])],
          max_messages = 2\<rparr>" 1 "''user''" "''b''"]
  by (simp add: get_context_def add_message_def appended_def evict_def is_system_def
        py_slice_from_def Let_def)

lemma keys_delete: "set (map fst (AList.delete k al)) = set (map fst al) - {k}"
  by (simp only: delete_keys set_removeAll)

lemma keys_update: "set (map fst (AList.update k v al)) = insert k (set (map fst al))"
  using dom_update [of k v al] by simp

lemma ids_after_clear: "u \<notin> set (get_user_ids (clear_context cm u))"
proof (cases "has_context cm u")
  case True
  then show ?thesis by (simp add: get_user_ids_def clear_context_def keys_delete del: set_map)
next
  case False
  then have "u \<notin> set (map fst (contexts cm))"
    by (simp add: has_context_def map_of_eq_None_iff)
  with False show ?thesis by (simp add: get_user_ids_def clear_context_def del: set_map)
qed

lemma ids_step:
  assumes "\<not> touches u op" and "u \<notin> set (get_user_ids cm)"
  shows "u \<notin> set (get_user_ids (step cm op))"
proof (cases op)
  case (Get v)
  with assms show ?thesis
    by (simp add: get_user_ids_def get_context_def keys_update del: set_map split: option.splits)
next
  case (Add v r c)
  with assms show ?thesis
    by (simp add: get_user_ids_def add_message_def Let_def keys_update del: set_map)
next
  case (Clear v)
  with assms show ?thesis
    by (simp add: get_user_ids_def clear_context_def keys_delete del: set_map)
next
  case ListIds
  with assms show ?thesis by simp
next
  case (Length v)
  with assms show ?thesis by simp
qed

lemma ids_run:
  "\<forall>op\<in>set ops. \<not> touches u op \<Longrightarrow> u \<notin> set (get_user_ids cm) \<Longrightarrow>
     u \<notin> set (get_user_ids (run cm ops))"
  unfolding run_def
  by (induction ops arbitrary: cm) (simp_all add: ids_step)

lemma get_after_clear: "fst (get_context (clear_context cm u) u) = []"
  by (simp add: get_context_def clear_context_def has_context_def delete_conv' split: option.splits)

lemma ids_after_get: "u \<in> set (get_user_ids (snd (get_context cm u)))"
proof (cases "map_of (contexts cm) u")
  case None
  then show ?thesis by (simp add: get_user_ids_def get_context_def keys_update del: set_map)
next
  case (Some ms)
  then have "u \<in> set (map fst (contexts cm))"
    using map_of_eq_None_iff [of "contexts cm" u] by simp
  with Some show ?thesis by (simp add: get_user_ids_def get_context_def del: set_map)
qed

lemma ids_after_add: "u \<in> set (get_user_ids (add_message cm u r c))"
  by (simp add: get_user_ids_def add_message_def Let_def keys_update del: set_map)

text \<open>
  Claim C9: after \<^verbatim>\<open>clear_context\<close> for a user, \<^verbatim>\<open>get_context\<close> returns the empty
  list; the user is not among \<^verbatim>\<open>get_user_ids\<close>, and stays out through any run of
  operations none of which is a \<^verbatim>\<open>get_context\<close> or an \<^verbatim>\<open>add_message\<close> for that user;
  either of those two brings the user back.
\<close>

theorem clear_then_get_empty_and_absent:
  "fst (get_context (clear_context cm u) u) = []
   \<and> u \<notin> set (get_user_ids (clear_context cm u))
   \<and> (\<forall>ops. (\<forall>op\<in>set ops. \<not> touches u op) \<longrightarrow>
         u \<notin> set (get_user_ids (run (clear_context cm u) ops)))
   \<and> u \<in> set (get_user_ids (snd (get_context (clear_context cm u) u)))
   \<and> u \<in> set (get_user_ids (add_message (clear_context cm u) u r c))"
  using get_after_clear [where cm = cm and u = u] ids_after_clear [where cm = cm and u = u]
    ids_run [where u = u and cm = "clear_context cm u"]
    ids_after_get [where u = u and cm = "clear_context cm u"]
    ids_after_add [where u = u and cm = "clear_context cm u" and r = r and c = c]
  by blast

theorem clear_then_get_empty_and_absent_witness:
  "fst (get_context (clear_context
       \<lparr>contexts = [(1, [\<lparr>role = ''user'', content = ''hi''\<rparr>]), (2, [])], max_messages = 20\<rparr> 1) 1) = []
   \<and> 1 \<notin> set (get_user_ids (run (clear_context
       \<lparr>contexts = [(1, [\<lparr>role = ''user'', content = ''hi''\<rparr>]), (2, [])], max_messages = 20\<rparr> 1)
          [Add 2 ''user'' ''x'', Clear 1, ListIds, Length 1, Get 2]))
   \<and> get_user_ids (run (clear_context
       \<lparr>contexts = [(1, [\<lparr>role = ''user'', content = ''hi''\<rparr>]), (2, [])], max_messages = 20\<rparr> 1)
          [Add 2 ''user'' ''x'', Clear 1, ListIds, Length 1, Get 2]) = [2]"
proof -
  have h: "\<forall>op\<in>set [Add 2 ''user'' ''x'', Clear 1, ListIds, Length 1, Get 2]. \<not> touches 1 op"
    by simp
  have ids: "get_user_ids (run (clear_context
       \<lparr>contexts = [(1, [\<lparr>role = ''user'', content = ''hi''\<rparr>]), (2, [])], max_messages = 20\<rparr> 1)
          [Add 2 ''user'' ''x'', Clear 1, ListIds, Length 1, Get 2]) = [2]"
    by (simp add: run_def get_user_ids_def clear_context_def has_context_def add_message_def
          get_context_def appended_def Let_def)
  show ?thesis
    using h ids clear_then_get_empty_and_absent
      [of "\<lparr>contexts = [(1, [\<lparr>role = ''user'', content = ''hi''\<rparr>]), (2, [])], max_messages = 20\<rparr>"
          1 "''user''" "''x''"]
    by blast
qed


section \<open>Properties of the provider selection\<close>

text \<open>
  Claim C3 says that an explicit key that is recognized but whose client could not be
  constructed fails with an error of its own, distinct from the one for "no provider
  available". With \<^verbatim>\<open>AI_PROVIDER = "openai"\<close> and only the Ollama client constructed, the
  code raises the error of line 111, the one for "no provider available": the
  \<^verbatim>\<open>raise\<close> written for this case (line 93) is never reached.
\<close>

theorem explicit_unconstructible_key_reports_no_provider:
  "active_provider (Some ''openai'')
     \<lparr>ollama_client = Some c, openai_client = None, deepseek_client = None,
      genapi_client = None, proxyapi_client = None\<rparr> = Inl NoProviderAvailable"
  by (simp add: active_provider_def provider_map_def)


lemma client_of_simps:
  "client_of cs ''ollama'' = ollama_client cs"
  "client_of cs ''openai'' = openai_client cs"
  "client_of cs ''deepseek'' = deepseek_client cs"
  "client_of cs ''genapi'' = genapi_client cs"
  "client_of cs ''proxyapi'' = proxyapi_client cs"
  by (simp_all add: client_of_def)

lemma priority_cases:
  "k \<in> set priority_order \<Longrightarrow>
     k = ''ollama'' \<or> k = ''openai'' \<or> k = ''deepseek'' \<or> k = ''genapi'' \<or> k = ''proxyapi''"
  by (simp add: priority_order_def)

lemma unknown_key:
  "k \<notin> set priority_order \<Longrightarrow> k \<noteq> [] \<Longrightarrow> active_provider (Some k) cs = Inl UnknownProviderKey"
  by (simp add: active_provider_def provider_map_def priority_order_def)

text \<open>What an explicit, recognized key gives.\<close>

lemma recognized_key_without_client:
  assumes "k \<in> set priority_order" and "client_of cs k = None"
  shows "active_provider (Some k) cs = Inl NoProviderAvailable"
  using priority_cases [OF assms(1)] assms(2)
  by (elim disjE) (simp_all add: client_of_simps, simp_all add: active_provider_def provider_map_def)

lemma recognized_key_with_client:
  assumes "k \<in> set priority_order" and "client_of cs k = Some c"
  shows "\<exists>name. active_provider (Some k) cs = Inr (k, name, c)"
  using priority_cases [OF assms(1)] assms(2)
  by (elim disjE) (simp_all add: client_of_simps, simp_all add: active_provider_def provider_map_def)

lemma first_constructible_sound:
  "first_constructible ps = Some (k, n, c) \<Longrightarrow>
     \<exists>i < length ps. ps ! i = (k, n, Some c) \<and> (\<forall>j < i. snd (snd (ps ! j)) = None)"
proof (induction ps rule: first_constructible.induct)
  case 1
  then show ?case by simp
next
  case (2 key name client rest)
  show ?case
  proof (cases client)
    case None
    with 2 obtain i where i: "i < length rest" "rest ! i = (k, n, Some c)"
      "\<forall>j < i. snd (snd (rest ! j)) = None" by auto
    have "\<forall>j < Suc i. snd (snd (((key, name, client) # rest) ! j)) = None"
      using i(3) None by (auto simp: nth_Cons split: nat.splits)
    with i(1,2) show ?thesis by (intro exI [of _ "Suc i"]) simp
  next
    case (Some a)
    with 2 show ?thesis by (intro exI [of _ 0]) simp
  qed
qed

lemma first_constructible_none:
  "first_constructible (provider_map cs) = None \<Longrightarrow>
     ollama_client cs = None \<and> openai_client cs = None \<and> deepseek_client cs = None
     \<and> genapi_client cs = None \<and> proxyapi_client cs = None"
  by (simp add: provider_map_def split: option.splits)

lemma less_5_cases: "i < (5::nat) \<Longrightarrow> i = 0 \<or> i = 1 \<or> i = 2 \<or> i = 3 \<or> i = 4"
  by arith

lemma provider_map_nth:
  assumes "i < 5"
  shows "fst (provider_map cs ! i) = priority_order ! i \<and>
         snd (snd (provider_map cs ! i)) = client_of cs (priority_order ! i)"
proof -
  from assms have "i = 0 \<or> i = 1 \<or> i = 2 \<or> i = 3 \<or> i = 4" by (rule less_5_cases)
  then show ?thesis
    by (elim disjE) (simp_all add: priority_order_def client_of_simps, simp_all add: provider_map_def)
qed

lemma no_key_selects_first:
  assumes a: "active_provider None cs = Inr (k, n, c)"
  shows "\<exists>i < length priority_order. priority_order ! i = k \<and> client_of cs k = Some c
          \<and> (\<forall>j < i. client_of cs (priority_order ! j) = None)"
proof -
  from a have fc: "first_constructible (provider_map cs) = Some (k, n, c)"
    by (simp add: active_provider_def split: option.splits)
  from first_constructible_sound [OF fc] obtain i where i: "i < length (provider_map cs)"
    "provider_map cs ! i = (k, n, Some c)" "\<forall>j < i. snd (snd (provider_map cs ! j)) = None"
    by blast
  have len: "length (provider_map cs) = 5" "length priority_order = 5"
    by (simp_all add: provider_map_def priority_order_def)
  from i(1) len have i5: "i < 5" by simp
  have ki: "priority_order ! i = k"
    using provider_map_nth [OF i5, of cs] i(2) by simp
  have ci: "client_of cs (priority_order ! i) = Some c"
    using provider_map_nth [OF i5, of cs] i(2) by simp
  have before: "client_of cs (priority_order ! j) = None" if "j < i" for j
  proof -
    from that i5 have "j < 5" by simp
    from provider_map_nth [OF this, of cs] i(3) that show ?thesis by simp
  qed
  from i5 len ki ci before show ?thesis by auto
qed

lemma no_key_error:
  assumes a: "active_provider None cs = Inl e"
  shows "e = NoProviderAvailable \<and> (\<forall>k \<in> set priority_order. client_of cs k = None)"
proof -
  from a have none: "first_constructible (provider_map cs) = None"
    by (simp add: active_provider_def split: option.splits)
  from a have e: "e = NoProviderAvailable"
    by (simp add: active_provider_def split: option.splits)
  have "client_of cs k = None" if "k \<in> set priority_order" for k
    using priority_cases [OF that] first_constructible_none [OF none]
    by (elim disjE) (simp_all add: client_of_simps)
  with e show ?thesis by simp
qed

lemma only_deepseek:
  "ollama_client cs = None \<Longrightarrow> openai_client cs = None \<Longrightarrow> deepseek_client cs = Some c \<Longrightarrow>
     active_provider None cs = Inr (''deepseek'', ''DeepSeek'', c)"
  by (simp add: active_provider_def provider_map_def)

lemma some_client_selected:
  assumes k: "k \<in> set priority_order" and c: "client_of cs k \<noteq> None"
  shows "\<exists>p. active_provider None cs = Inr p"
proof (cases "active_provider None cs")
  case (Inl e)
  from no_key_error [OF this] k c show ?thesis by simp
next
  case (Inr p)
  then show ?thesis by blast
qed


lemma no_key_by_fields:
  "active_provider None cs =
     (case ollama_client cs of
        Some c \<Rightarrow> Inr (''ollama'', ''Ollama'', c)
      | None \<Rightarrow>
     (case openai_client cs of
        Some c \<Rightarrow> Inr (''openai'', ''OpenAI'', c)
      | None \<Rightarrow>
     (case deepseek_client cs of
        Some c \<Rightarrow> Inr (''deepseek'', ''DeepSeek'', c)
      | None \<Rightarrow>
     (case genapi_client cs of
        Some c \<Rightarrow> Inr (''genapi'', ''GenAPI'', c)
      | None \<Rightarrow>
     (case proxyapi_client cs of
        Some c \<Rightarrow> Inr (''proxyapi'', ''ProxyAPI'', c)
      | None \<Rightarrow> Inl NoProviderAvailable)))))"
  by (simp add: active_provider_def provider_map_def split: option.splits)

text \<open>
  Claim C8: with no explicit key, the selection tries the variables \<^verbatim>\<open>ollama_client\<close>,
  \<^verbatim>\<open>openai_client\<close>, \<^verbatim>\<open>deepseek_client\<close>, \<^verbatim>\<open>genapi_client\<close>, \<^verbatim>\<open>proxyapi_client\<close> in
  this order and selects the first that holds a client, under its key and display
  name; that is, the provider selected is the first of the order ollama, openai,
  deepseek, genapi, proxyapi whose client is constructed. The selection fails, with
  "no provider available", only when no client is constructed at all; with Ollama and
  OpenAI not constructed and DeepSeek constructed, DeepSeek is selected; and as long as
  one client is constructed the selection succeeds, whichever constructors failed.
\<close>

theorem no_key_selects_first_constructible:
  "active_provider None cs =
     (case ollama_client cs of
        Some c \<Rightarrow> Inr (''ollama'', ''Ollama'', c)
      | None \<Rightarrow>
     (case openai_client cs of
        Some c \<Rightarrow> Inr (''openai'', ''OpenAI'', c)
      | None \<Rightarrow>
     (case deepseek_client cs of
        Some c \<Rightarrow> Inr (''deepseek'', ''DeepSeek'', c)
      | None \<Rightarrow>
     (case genapi_client cs of
        Some c \<Rightarrow> Inr (''genapi'', ''GenAPI'', c)
      | None \<Rightarrow>
     (case proxyapi_client cs of
        Some c \<Rightarrow> Inr (''proxyapi'', ''ProxyAPI'', c)
      | None \<Rightarrow> Inl NoProviderAvailable)))))
   \<and> (\<forall>k n c. active_provider None cs = Inr (k, n, c) \<longrightarrow>
      (\<exists>i < length priority_order. priority_order ! i = k \<and> client_of cs k = Some c
          \<and> (\<forall>j < i. client_of cs (priority_order ! j) = None)))
   \<and> (\<forall>e. active_provider None cs = Inl e \<longrightarrow>
         e = NoProviderAvailable \<and> (\<forall>k \<in> set priority_order. client_of cs k = None))
   \<and> (\<forall>c. ollama_client cs = None \<and> openai_client cs = None \<and> deepseek_client cs = Some c \<longrightarrow>
         active_provider None cs = Inr (''deepseek'', ''DeepSeek'', c))
   \<and> (\<forall>k \<in> set priority_order. client_of cs k \<noteq> None \<longrightarrow> (\<exists>p. active_provider None cs = Inr p))"
proof -
  have rest: "(\<forall>k n c. active_provider None cs = Inr (k, n, c) \<longrightarrow>
      (\<exists>i < length priority_order. priority_order ! i = k \<and> client_of cs k = Some c
          \<and> (\<forall>j < i. client_of cs (priority_order ! j) = None)))
   \<and> (\<forall>e. active_provider None cs = Inl e \<longrightarrow>
         e = NoProviderAvailable \<and> (\<forall>k \<in> set priority_order. client_of cs k = None))
   \<and> (\<forall>c. ollama_client cs = None \<and> openai_client cs = None \<and> deepseek_client cs = Some c \<longrightarrow>
         active_provider None cs = Inr (''deepseek'', ''DeepSeek'', c))
   \<and> (\<forall>k \<in> set priority_order. client_of cs k \<noteq> None \<longrightarrow> (\<exists>p. active_provider None cs = Inr p))"
    using no_key_selects_first [of cs] no_key_error [of cs] only_deepseek [of cs]
      some_client_selected [of _ cs]
    by blast
  from no_key_by_fields [of cs] rest show ?thesis by (rule conjI)
qed

text \<open>
  The constructors of Ollama, OpenAI and GenAPI raise, those of DeepSeek and ProxyAPI
  return clients 1 and 2: DeepSeek is selected. All five constructors return: Ollama is
  selected. Only the constructor of ProxyAPI returns: ProxyAPI is selected.
\<close>

theorem no_key_selects_first_constructible_witness:
  "active_provider None (init_clients (Inl ()) (Inl ()) (Inr (1::nat)) (Inl ()) (Inr 2))
     = Inr (''deepseek'', ''DeepSeek'', 1)
   \<and> active_provider None
        (init_clients (Inr (1::nat) :: unit + nat) (Inr 2) (Inr 3) (Inr 4) (Inr 5))
     = Inr (''ollama'', ''Ollama'', 1)
   \<and> active_provider None (init_clients (Inl ()) (Inl ()) (Inl ()) (Inl ()) (Inr (5::nat)))
     = Inr (''proxyapi'', ''ProxyAPI'', 5)"
proof -
  let ?cs = "init_clients (Inl ()) (Inl ()) (Inr (1::nat)) (Inl ()) (Inr 2)"
  have h: "ollama_client ?cs = None \<and> openai_client ?cs = None \<and> deepseek_client ?cs = Some 1"
    by (simp add: init_clients_def try_construct_def)
  from no_key_selects_first_constructible [of ?cs]
  have "\<forall>c. ollama_client ?cs = None \<and> openai_client ?cs = None \<and> deepseek_client ?cs = Some c \<longrightarrow>
         active_provider None ?cs = Inr (''deepseek'', ''DeepSeek'', c)" by blast
  with h have d: "active_provider None ?cs = Inr (''deepseek'', ''DeepSeek'', 1)" by blast
  have o: "active_provider None
        (init_clients (Inr (1::nat) :: unit + nat) (Inr 2) (Inr 3) (Inr 4) (Inr 5))
     = Inr (''ollama'', ''Ollama'', 1)"
    using no_key_selects_first_constructible
      [of "init_clients (Inr (1::nat) :: unit + nat) (Inr 2) (Inr 3) (Inr 4) (Inr 5)"]
    by (simp add: init_clients_def try_construct_def)
  have x: "active_provider None (init_clients (Inl ()) (Inl ()) (Inl ()) (Inl ()) (Inr (5::nat)))
     = Inr (''proxyapi'', ''ProxyAPI'', 5)"
    using no_key_selects_first_constructible
      [of "init_clients (Inl ()) (Inl ()) (Inl ()) (Inl ()) (Inr (5::nat))"]
    by (simp add: init_clients_def try_construct_def)
  from d o x show ?thesis by simp
qed


section \<open>Properties of the response extractor\<close>

lemma extract_plain_string: "extract_text_from_output str_of (JStr ''hello'') = Some ''hello''"
  by (simp add: extract_text_from_output_def strip_or_none_def strip_def is_space_def)

lemma extract_string_list: "extract_text_from_output str_of (JList [JStr ''he'', JStr ''llo'']) = Some ''he llo''"
  by (simp add: extract_text_from_output_def extract_from_list_def py_str_def strip_or_none_def strip_def is_space_def)

lemma extract_choices: "extract_text_from_output str_of
   (JDict [(''choices'', JList [JDict [(''message'', JDict [(''content'', JStr ''hi'')])]])]) = Some ''hi''"
  by (simp add: extract_text_from_output_def extract_from_dict_def choices_content_def message_content_def
    dict_get_def py_or_def strip_or_none_def strip_def is_space_def)

lemma extract_content_parts: "extract_text_from_output str_of
   (JDict [(''content'', JList [JDict [(''type'', JStr ''text''), (''text'', JStr ''x'')]])]) = Some ''x''"
  by (simp add: extract_text_from_output_def extract_from_dict_def choices_content_def message_content_def
    dict_get_def py_or_def strip_or_none_def strip_def is_space_def)

lemma extract_degenerate: "extract_text_from_output str_of (JDict []) = None"
  "extract_text_from_output str_of JNull = None"
  "extract_text_from_output str_of (JList []) = None"
  "extract_text_from_output str_of (JInt n) = None"
  "extract_text_from_output str_of (JFloat x) = None"
  "extract_text_from_output str_of (JBool b) = None"
  by (simp_all add: extract_text_from_output_def extract_from_dict_def extract_from_list_def choices_content_def message_content_def
    dict_get_def py_or_def)

lemma extract_malformed:
  "extract_text_from_output str_of (JDict [(''choices'', JList [])]) = None"
  "extract_text_from_output str_of (JDict [(''choices'', JList [JDict [(''message'', JDict [(''content'', JInt 5)])]])]) = None"
  "extract_text_from_output str_of (JDict [(''choices'', JList [JDict [(''message'', JStr ''hi'')]])]) = None"
  "extract_text_from_output str_of (JDict [(''content'', JList [JDict [(''type'', JStr ''text'')]])]) = None"
  "extract_text_from_output str_of (JDict [(''content'', JList [JDict [(''type'', JStr ''image''), (''text'', JStr ''x'')]])]) = None"
  "extract_text_from_output str_of (JList [JList [JStr ''x'']]) = None"
  "extract_text_from_output str_of (JList [JDict [(''message'', JDict [(''content'', JList [])])]]) = None"
  "extract_text_from_output str_of (JList [JInt 1, JStr ''x'']) = None"
  by (simp_all add: extract_text_from_output_def extract_from_dict_def extract_from_list_def choices_content_def message_content_def
    first_pass_item_def dict_get_def py_or_def)

text \<open>
  Claim C5: the extractor gives \<^verbatim>\<open>"hello"\<close> for \<^verbatim>\<open>"hello"\<close>, \<^verbatim>\<open>"he llo"\<close> for
  \<^verbatim>\<open>["he","llo"]\<close>, \<^verbatim>\<open>"hi"\<close> for \<^verbatim>\<open>{"choices":[{"message":{"content":"hi"}}]}\<close>,
  \<^verbatim>\<open>"x"\<close> for \<^verbatim>\<open>{"content":[{"type":"text","text":"x"}]}\<close>, and nothing for the empty
  dictionary, \<^verbatim>\<open>None\<close>, the empty list, every number and boolean, and for nestings
  that break the expected shape (no choice, a content that is a number, a message that
  is a string, a part without text, a part of another type, a list of lists, a list
  whose first element is not a string).
\<close>

theorem extractor_examples:
  "extract_text_from_output str_of (JStr ''hello'') = Some ''hello''
   \<and> extract_text_from_output str_of (JList [JStr ''he'', JStr ''llo'']) = Some ''he llo''
   \<and> extract_text_from_output str_of
        (JDict [(''choices'', JList [JDict [(''message'', JDict [(''content'', JStr ''hi'')])]])]) = Some ''hi''
   \<and> extract_text_from_output str_of
        (JDict [(''content'', JList [JDict [(''type'', JStr ''text''), (''text'', JStr ''x'')]])]) = Some ''x''
   \<and> extract_text_from_output str_of (JDict []) = None
   \<and> extract_text_from_output str_of JNull = None
   \<and> extract_text_from_output str_of (JList []) = None
   \<and> (\<forall>n. extract_text_from_output str_of (JInt n) = None)
   \<and> (\<forall>x. extract_text_from_output str_of (JFloat x) = None)
   \<and> (\<forall>b. extract_text_from_output str_of (JBool b) = None)
   \<and> extract_text_from_output str_of (JDict [(''choices'', JList [])]) = None
   \<and> extract_text_from_output str_of
        (JDict [(''choices'', JList [JDict [(''message'', JDict [(''content'', JInt 5)])]])]) = None
   \<and> extract_text_from_output str_of
        (JDict [(''choices'', JList [JDict [(''message'', JStr ''hi'')]])]) = None
   \<and> extract_text_from_output str_of
        (JDict [(''content'', JList [JDict [(''type'', JStr ''text'')]])]) = None
   \<and> extract_text_from_output str_of
        (JDict [(''content'', JList [JDict [(''type'', JStr ''image''), (''text'', JStr ''x'')]])]) = None
   \<and> extract_text_from_output str_of (JList [JList [JStr ''x'']]) = None
   \<and> extract_text_from_output str_of
        (JList [JDict [(''message'', JDict [(''content'', JList [])])]]) = None
   \<and> extract_text_from_output str_of (JList [JInt 1, JStr ''x'']) = None"
  by (simp only: extract_plain_string extract_string_list extract_choices extract_content_parts
        extract_degenerate extract_malformed simp_thms)

section \<open>Properties of the job client\<close>

lemma non_terminal_iff: "non_terminal r \<longleftrightarrow> poll_response str_of r = Fallthrough"
proof (cases r)
  case (Raises e)
  then show ?thesis by (simp add: non_terminal_def poll_response_def)
next
  case (Response code body)
  show ?thesis
  proof (cases body)
    case None
    with Response show ?thesis by (simp add: non_terminal_def poll_response_def)
  next
    case (Some data)
    with Response show ?thesis
      by (cases data) (simp_all add: non_terminal_def poll_response_def Let_def split: option.splits)
  qed
qed

lemma poll_loop_total:
  assumes iv: "0 \<le> interval" and prog: "\<forall>i. 0 < interval + int (lat i)"
  shows "\<exists>new r. poll_loop str_of interval get lat deadline i now issued = Some (issued @ new, r)
           \<and> (\<forall>t \<in> set new. now \<le> t \<and> t < deadline)
           \<and> ((\<forall>j < length new. non_terminal (get (i + j))) \<longrightarrow> r = Inr (Inl PollTimeout))"
proof (induction "nat (deadline - now)" arbitrary: i now issued rule: less_induct)
  case less
  show ?case
  proof (cases "now < deadline")
    case False
    then have "poll_loop str_of interval get lat deadline i now issued = Some (issued @ [], Inr (Inl PollTimeout))"
      by (subst poll_loop.simps) simp
    then show ?thesis by (intro exI [of _ "[]"] exI [of _ "Inr (Inl PollTimeout)"]) simp
  next
    case True
    show ?thesis
    proof (cases "poll_response str_of (get i)")
      case (Returned r0)
      with True have "poll_loop str_of interval get lat deadline i now issued = Some (issued @ [now], Inr r0)"
        by (subst poll_loop.simps) simp
      moreover have "\<not> non_terminal (get i)"
        using Returned by (simp add: non_terminal_iff [of _ str_of])
      then have "(\<forall>j < length [now]. non_terminal (get (i + j))) \<longrightarrow> Inr r0 = Inr (Inl PollTimeout)"
        by auto
      moreover have "\<forall>t \<in> set [now]. now \<le> t \<and> t < deadline"
        using True by simp
      ultimately show ?thesis
        by (intro exI [of _ "[now]"] exI [of _ "Inr r0"] conjI)
    next
      case Fallthrough
      let ?now' = "now + int (lat i) + interval"
      from prog have step: "now < ?now'" by (simp add: add.commute add.left_commute) 
      with True have "nat (deadline - ?now') < nat (deadline - now)" by simp
      from less [OF this, of "Suc i" "issued @ [now]"]
      obtain new r where rec: "poll_loop str_of interval get lat deadline (Suc i) ?now' (issued @ [now]) = Some ((issued @ [now]) @ new, r)"
        and times: "\<forall>t \<in> set new. ?now' \<le> t \<and> t < deadline"
        and out: "(\<forall>j < length new. non_terminal (get (Suc i + j))) \<longrightarrow> r = Inr (Inl PollTimeout)"
        by blast
      from True Fallthrough iv rec
      have eq: "poll_loop str_of interval get lat deadline i now issued = Some (issued @ (now # new), r)"
        by (subst poll_loop.simps) simp
      have t2: "\<forall>t \<in> set (now # new). now \<le> t \<and> t < deadline"
        using times step True by auto
      have o2: "(\<forall>j < length (now # new). non_terminal (get (i + j))) \<longrightarrow> r = Inr (Inl PollTimeout)"
      proof
        assume a: "\<forall>j < length (now # new). non_terminal (get (i + j))"
        have "\<forall>j < length new. non_terminal (get (Suc i + j))"
        proof (intro allI impI)
          fix j assume "j < length new"
          then have "Suc j < length (now # new)" by simp
          with a have "non_terminal (get (i + Suc j))" by blast
          then show "non_terminal (get (Suc i + j))" by simp
        qed
        with out show "r = Inr (Inl PollTimeout)" by blast
      qed
      from eq t2 o2 show ?thesis
        by (intro exI [of _ "now # new"] exI [of _ r] conjI)
    qed
  qed
qed





lemma submit_error_codes:
  assumes "post_result env = Response code body"
  shows "(code = 404 \<longrightarrow> genapi_generate_response str_of client env t0 = Some (Inl EndpointNotFound))
       \<and> (code = 401 \<longrightarrow> genapi_generate_response str_of client env t0 = Some (Inl AuthFailure))
       \<and> (code = 402 \<longrightarrow> genapi_generate_response str_of client env t0 = Some (Inl InsufficientBalance))
       \<and> (code \<ge> 400 \<and> code \<noteq> 401 \<and> code \<noteq> 402 \<and> code \<noteq> 404 \<longrightarrow>
            genapi_generate_response str_of client env t0 = Some (Inl ApiError))"
  using assms by (simp add: genapi_generate_response_def genapi_try_def)

lemma submit_success:
  assumes "post_result env = Response code (Some (JDict data))" and "code < 400"
    and "dict_get data ''status'' = JStr ''success''"
  shows "genapi_generate_response str_of client env t0 =
           Some (case extract_text_from_output str_of (dict_get data ''output'') of
                   Some text \<Rightarrow> Inr text
                 | None \<Rightarrow> Inl ExtractionFailure)"
  using assms by (simp add: genapi_generate_response_def genapi_try_def split: option.splits)

lemma submit_failed:
  assumes "post_result env = Response code (Some (JDict data))" and "code < 400"
    and "dict_get data ''status'' = JStr ''failed''"
  shows "genapi_generate_response str_of client env t0 = Some (Inl JobFailed)"
  using assms by (simp add: genapi_generate_response_def genapi_try_def)

lemma submit_missing_request_id:
  assumes "post_result env = Response code (Some (JDict data))" and "code < 400"
    and "dict_get data ''status'' \<noteq> JStr ''success''" and "dict_get data ''status'' \<noteq> JStr ''failed''"
    and "dict_get data ''request_id'' = JNull"
  shows "genapi_generate_response str_of client env t0 = Some (Inl MissingRequestId)"
  using assms by (simp add: genapi_generate_response_def genapi_try_def)

lemma submit_polls:
  assumes "post_result env = Response code (Some (JDict data))" and "code < 400"
    and "dict_get data ''status'' \<noteq> JStr ''success''" and "dict_get data ''status'' \<noteq> JStr ''failed''"
    and "dict_get data ''request_id'' \<noteq> JNull"
  shows "genapi_generate_response str_of client env t0 =
           (case poll_until_done str_of client env (dict_get data ''request_id'')
                   (t0 + int (post_latency env)) of
              None \<Rightarrow> None
            | Some (issued, Inl ValueError) \<Rightarrow> Some (Inl UnexpectedError)
            | Some (issued, Inr r) \<Rightarrow> Some r)"
  using assms
  by (simp add: genapi_generate_response_def genapi_try_def split: option.splits prod.splits sum.splits sleep_error.splits)


text \<open>
  Claim C6: for every answer to the submit request, the status codes 404, 401 and 402
  and every other code from 400 on give a failure at once (the POST is made once, and
  no GET is made); a body with status \<^verbatim>\<open>success\<close> gives the text extracted from
  \<^verbatim>\<open>output\<close>, or a failure when none is found; status \<^verbatim>\<open>failed\<close> gives a failure; any
  other status gives the failure of the missing request id when \<^verbatim>\<open>request_id\<close> is
  absent or null, and otherwise the outcome of polling with that request id.
\<close>

theorem submit_response_handling:
  assumes "post_result env = Response code body"
  shows "(code = 404 \<longrightarrow> genapi_generate_response str_of client env t0 = Some (Inl EndpointNotFound))
       \<and> (code = 401 \<longrightarrow> genapi_generate_response str_of client env t0 = Some (Inl AuthFailure))
       \<and> (code = 402 \<longrightarrow> genapi_generate_response str_of client env t0 = Some (Inl InsufficientBalance))
       \<and> (code \<ge> 400 \<and> code \<noteq> 401 \<and> code \<noteq> 402 \<and> code \<noteq> 404 \<longrightarrow>
            genapi_generate_response str_of client env t0 = Some (Inl ApiError))
       \<and> (\<forall>data. code < 400 \<and> body = Some (JDict data) \<longrightarrow>
            (dict_get data ''status'' = JStr ''success'' \<longrightarrow>
               genapi_generate_response str_of client env t0 =
                 Some (case extract_text_from_output str_of (dict_get data ''output'') of
                         Some text \<Rightarrow> Inr text
                       | None \<Rightarrow> Inl ExtractionFailure))
          \<and> (dict_get data ''status'' = JStr ''failed'' \<longrightarrow>
               genapi_generate_response str_of client env t0 = Some (Inl JobFailed))
          \<and> (dict_get data ''status'' \<noteq> JStr ''success'' \<and> dict_get data ''status'' \<noteq> JStr ''failed'' \<longrightarrow>
               (dict_get data ''request_id'' = JNull \<longrightarrow>
                  genapi_generate_response str_of client env t0 = Some (Inl MissingRequestId))
             \<and> (dict_get data ''request_id'' \<noteq> JNull \<longrightarrow>
                  genapi_generate_response str_of client env t0 =
                    (case poll_until_done str_of client env (dict_get data ''request_id'')
                            (t0 + int (post_latency env)) of
                       None \<Rightarrow> None
                     | Some (issued, Inl ValueError) \<Rightarrow> Some (Inl UnexpectedError)
                     | Some (issued, Inr r) \<Rightarrow> Some r))))"
proof -
  have codes: "(code = 404 \<longrightarrow> genapi_generate_response str_of client env t0 = Some (Inl EndpointNotFound))
       \<and> (code = 401 \<longrightarrow> genapi_generate_response str_of client env t0 = Some (Inl AuthFailure))
       \<and> (code = 402 \<longrightarrow> genapi_generate_response str_of client env t0 = Some (Inl InsufficientBalance))
       \<and> (code \<ge> 400 \<and> code \<noteq> 401 \<and> code \<noteq> 402 \<and> code \<noteq> 404 \<longrightarrow>
            genapi_generate_response str_of client env t0 = Some (Inl ApiError))"
    by (rule submit_error_codes [OF assms])
  have bodies: "(dict_get data ''status'' = JStr ''success'' \<longrightarrow>
               genapi_generate_response str_of client env t0 =
                 Some (case extract_text_from_output str_of (dict_get data ''output'') of
                         Some text \<Rightarrow> Inr text
                       | None \<Rightarrow> Inl ExtractionFailure))
          \<and> (dict_get data ''status'' = JStr ''failed'' \<longrightarrow>
               genapi_generate_response str_of client env t0 = Some (Inl JobFailed))
          \<and> (dict_get data ''status'' \<noteq> JStr ''success'' \<and> dict_get data ''status'' \<noteq> JStr ''failed'' \<longrightarrow>
               (dict_get data ''request_id'' = JNull \<longrightarrow>
                  genapi_generate_response str_of client env t0 = Some (Inl MissingRequestId))
             \<and> (dict_get data ''request_id'' \<noteq> JNull \<longrightarrow>
                  genapi_generate_response str_of client env t0 =
                    (case poll_until_done str_of client env (dict_get data ''request_id'')
                            (t0 + int (post_latency env)) of
                       None \<Rightarrow> None
                     | Some (issued, Inl ValueError) \<Rightarrow> Some (Inl UnexpectedError)
                     | Some (issued, Inr r) \<Rightarrow> Some r)))"
    if "code < 400 \<and> body = Some (JDict data)" for data
  proof -
    from that assms have p: "post_result env = Response code (Some (JDict data))" and c: "code < 400"
      by simp_all
    show ?thesis
      using submit_success [OF p c, of str_of client t0] submit_failed [OF p c, of str_of client t0]
        submit_missing_request_id [OF p c, of str_of client t0] submit_polls [OF p c, of str_of client t0]
      by blast
  qed
  from codes bodies show ?thesis by blast
qed

text \<open>
  Status code 401; a \<^verbatim>\<open>processing\<close> answer without request id; and the answer
  \<^verbatim>\<open>{"status":"processing","request_id":42}\<close> followed by the poll answer
  \<^verbatim>\<open>{"status":"success","result":"done"}\<close> for request 42.
\<close>

theorem submit_response_handling_witness:
  "genapi_generate_response (\<lambda>x. []) \<lparr>poll_interval = 2, poll_max_wait = 120\<rparr>
     \<lparr>post_result = Response 401 None, post_latency = 1,
      get_result = (\<lambda>rid i. Raises RequestError), get_latency = (\<lambda>i. 1)\<rparr> 0
     = Some (Inl AuthFailure)
   \<and> genapi_generate_response (\<lambda>x. []) \<lparr>poll_interval = 2, poll_max_wait = 120\<rparr>
     \<lparr>post_result = Response 200 (Some (JDict [(''status'', JStr ''processing'')])), post_latency = 1,
      get_result = (\<lambda>rid i. Raises RequestError), get_latency = (\<lambda>i. 1)\<rparr> 0
     = Some (Inl MissingRequestId)
   \<and> genapi_generate_response (\<lambda>x. []) \<lparr>poll_interval = 2, poll_max_wait = 120\<rparr>
     \<lparr>post_result = Response 200 (Some (JDict [(''status'', JStr ''processing''), (''request_id'', JInt 42)])),
      post_latency = 1,
      get_result = (\<lambda>rid i. if rid = JInt 42
                      then Response 200 (Some (JDict [(''status'', JStr ''success''), (''result'', JStr ''done'')]))
                      else Response 404 None),
      get_latency = (\<lambda>i. 1)\<rparr> 0
     = Some (Inr ''done'')"
proof -
  let ?client = "\<lparr>poll_interval = 2, poll_max_wait = 120\<rparr>"
  let ?env1 = "\<lparr>post_result = Response 401 None, post_latency = 1,
      get_result = (\<lambda>rid i. Raises RequestError), get_latency = (\<lambda>i. 1)\<rparr>"
  let ?env2 = "\<lparr>post_result = Response 200 (Some (JDict [(''status'', JStr ''processing'')])), post_latency = 1,
      get_result = (\<lambda>rid i. Raises RequestError), get_latency = (\<lambda>i. 1)\<rparr>"
  let ?data3 = "[(''status'', JStr ''processing''), (''request_id'', JInt 42)]"
  let ?env3 = "\<lparr>post_result = Response 200 (Some (JDict ?data3)),
      post_latency = 1,
      get_result = (\<lambda>rid i. if rid = JInt 42
                      then Response 200 (Some (JDict [(''status'', JStr ''success''), (''result'', JStr ''done'')]))
                      else Response 404 None),
      get_latency = (\<lambda>i. 1)\<rparr>"
  have p1: "post_result ?env1 = Response 401 None" by simp
  have p2: "post_result ?env2 = Response 200 (Some (JDict [(''status'', JStr ''processing'')]))" by simp
  have p3: "post_result ?env3 = Response 200 (Some (JDict ?data3))" by simp
  have c1: "genapi_generate_response (\<lambda>x. []) ?client ?env1 0 = Some (Inl AuthFailure)"
    using submit_response_handling [OF p1, of "\<lambda>x. []" ?client 0] by simp
  have c2: "genapi_generate_response (\<lambda>x. []) ?client ?env2 0 = Some (Inl MissingRequestId)"
    using submit_response_handling [OF p2, of "\<lambda>x. []" ?client 0] by (simp add: dict_get_def)
  have rid: "dict_get ?data3 ''request_id'' = JInt 42" and st: "dict_get ?data3 ''status'' = JStr ''processing''"
    by (simp_all add: dict_get_def)
  have done_text: "extract_text_from_output (\<lambda>x. []) (JStr ''done'') = Some ''done''"
    by (simp add: extract_text_from_output_def strip_or_none_def strip_def is_space_def)
  have poll: "poll_until_done (\<lambda>x. []) ?client ?env3 (JInt 42) 1 = Some ([3], Inr (Inr ''done''))"
    by (simp add: poll_until_done_def, subst poll_loop.simps)
       (simp add: poll_response_def dict_get_def done_text)
  have c3: "genapi_generate_response (\<lambda>x. []) ?client ?env3 0 = Some (Inr ''done'')"
    using submit_response_handling [OF p3, of "\<lambda>x. []" ?client 0] rid st poll by simp
  from c1 c2 c3 show ?thesis by simp
qed



section \<open>Properties of the client boundary\<close>

lemma ollama_bound:
  "ollama_try p = Inl (e, response_bound, result_bound) \<Longrightarrow>
     e \<noteq> KeyError \<and> (e = RequestsHTTPError \<longrightarrow> response_bound)"
proof (cases p)
  case (PostRaises x)
  assume "ollama_try p = Inl (e, response_bound, result_bound)"
  with PostRaises show ?thesis by (cases x) (simp_all add: ollama_try_def)
next
  case (PostResponse code body)
  assume a: "ollama_try p = Inl (e, response_bound, result_bound)"
  show ?thesis
  proof (cases "400 \<le> code \<and> code < 600")
    case True
    with a PostResponse show ?thesis by (simp add: ollama_try_def)
  next
    case False
    with a PostResponse show ?thesis
      by (auto simp add: ollama_try_def split: option.splits json.splits)
  qed
qed

lemma ollama_except_result:
  "e \<noteq> KeyError \<Longrightarrow> (e = RequestsHTTPError \<longrightarrow> response_bound) \<Longrightarrow>
     \<exists>f. ollama_except (e, response_bound, result_bound) = Result f"
  by (cases e) simp_all

lemma ollama_never_raises:
  "(\<exists>v. ollama_generate_response p = Result (Inr v)) \<or>
   (\<exists>x f. ollama_try p = Inl x \<and> ollama_generate_response p = Result (Inl f))"
proof (cases "ollama_try p")
  case (Inl x)
  obtain e rb sb where x: "x = (e, rb, sb)" by (cases x) auto
  from ollama_bound [of p e rb sb] Inl x have "e \<noteq> KeyError \<and> (e = RequestsHTTPError \<longrightarrow> rb)" by simp
  with ollama_except_result [of e rb sb] obtain f where "ollama_except (e, rb, sb) = Result f" by blast
  with Inl x show ?thesis by (simp add: ollama_generate_response_def)
next
  case (Inr v)
  then show ?thesis by (simp add: ollama_generate_response_def)
qed

lemma ollama_failure:
  assumes "ollama_try p = Inl x"
  shows "\<exists>f. ollama_generate_response p = Result (Inl f)"
  using ollama_never_raises [of p] assms
  by (auto simp: ollama_generate_response_def split: outcome.splits)


text \<open>
  The GenAPI call returns whenever a round of its poll loop takes time.
\<close>

lemma poll_until_done_returns:
  assumes prog: "\<forall>i. 0 < poll_interval client + int (get_latency env i)"
  shows "\<exists>res. poll_until_done str_of client env request_id t0 = Some res"
proof (cases "poll_interval client < 0")
  case True
  then show ?thesis by (simp add: poll_until_done_def)
next
  case False
  then have iv: "0 \<le> poll_interval client" by simp
  from poll_loop_total [OF iv prog, of str_of "get_result env request_id"
      "t0 + poll_interval client + poll_max_wait client" 0 "t0 + poll_interval client" "[]"]
  obtain res where
    "poll_loop str_of (poll_interval client) (get_result env request_id) (get_latency env)
        (t0 + poll_interval client + poll_max_wait client) 0 (t0 + poll_interval client) [] = Some res"
    by auto
  with iv show ?thesis by (simp add: poll_until_done_def Let_def)
qed

lemma genapi_try_returns:
  assumes prog: "\<forall>i. 0 < poll_interval client + int (get_latency env i)"
  shows "\<exists>res. genapi_try str_of client env t0 = Some res"
proof (cases "post_result env")
  case (Raises e)
  then show ?thesis by (simp add: genapi_try_def)
next
  case (Response code body)
  have polled: "\<exists>res. (case poll_until_done str_of client env rid t1 of
                   None \<Rightarrow> None
                 | Some (issued, Inl ValueError) \<Rightarrow> Some (Inl OtherException)
                 | Some (issued, Inr r) \<Rightarrow> Some (Inr r)) = Some (res :: httpx_exn + failure + string)" for rid t1
  proof -
    from poll_until_done_returns [OF prog, of str_of rid t1]
    obtain issued r where "poll_until_done str_of client env rid t1 = Some (issued, r)" by force
    then show ?thesis by (cases r) (auto split: sleep_error.splits)
  qed
  show ?thesis
  proof (cases body)
    case None
    with Response show ?thesis by (simp add: genapi_try_def)
  next
    case (Some data)
    show ?thesis
    proof (cases data)
      case (JDict d)
      with Response Some polled show ?thesis
        by (simp add: genapi_try_def Let_def split: option.splits)
    qed (use Response Some in \<open>simp_all add: genapi_try_def\<close>)
  qed
qed

lemma genapi_returns:
  assumes prog: "\<forall>i. 0 < poll_interval client + int (get_latency env i)"
  shows "\<exists>r. genapi_generate_response str_of client env t0 = Some r"
proof -
  from genapi_try_returns [OF prog, of str_of t0]
  obtain res where "genapi_try str_of client env t0 = Some res" by blast
  then show ?thesis by (cases res) (simp_all add: genapi_generate_response_def)
qed

text \<open>
  Claim C7: no \<^verbatim>\<open>generate_response\<close> lets an exception through. For the Ollama
  client, the \<^verbatim>\<open>try\<close> block never raises \<^verbatim>\<open>KeyError\<close> and raises \<^verbatim>\<open>HTTPError\<close> only
  with \<^verbatim>\<open>response\<close> bound, so no \<^verbatim>\<open>except\<close> clause fails; every exception of the
  block ends in a failure value, \<^verbatim>\<open>None\<close> for the caller. The same holds for the
  OpenAI, DeepSeek and ProxyAPI clients, and for every exception raised inside the
  \<^verbatim>\<open>try\<close> block of the GenAPI client, whose call returns a value whenever a
  round of its poll loop takes time.
\<close>

theorem client_failures_become_none:
  "(\<forall>p. ollama_generate_response p \<noteq> Propagated)
   \<and> (\<forall>p x. ollama_try p = Inl x \<longrightarrow>
         (\<exists>f. ollama_generate_response p = Result (Inl f) \<and> to_optional (Inl f :: failure + json) = None))
   \<and> (\<forall>r. openai_generate_response r \<noteq> Propagated
          \<and> deepseek_generate_response r \<noteq> Propagated
          \<and> proxyapi_generate_response r \<noteq> Propagated)
   \<and> (\<forall>r e. completion_try r = Inl e \<longrightarrow>
         openai_generate_response r = Result (Inl (completion_except e))
         \<and> deepseek_generate_response r = Result (Inl (completion_except e))
         \<and> proxyapi_generate_response r = Result (Inl (completion_except e))
         \<and> to_optional (Inl (completion_except e) :: failure + string option) = None)
   \<and> (\<forall>str_of client env t0 e. genapi_try str_of client env t0 = Some (Inl e) \<longrightarrow>
         genapi_generate_response str_of client env t0 = Some (Inl (genapi_except e))
         \<and> to_optional (Inl (genapi_except e) :: failure + string) = None)
   \<and> (\<forall>str_of client env t0. (\<forall>i. 0 < poll_interval client + int (get_latency env i)) \<longrightarrow>
         (\<exists>r. genapi_generate_response str_of client env t0 = Some r))"
proof (intro conjI allI impI)
  fix p show "ollama_generate_response p \<noteq> Propagated"
    using ollama_never_raises [of p] by auto
next
  fix p x assume "ollama_try p = Inl x"
  from ollama_failure [OF this]
  show "\<exists>f. ollama_generate_response p = Result (Inl f) \<and> to_optional (Inl f :: failure + json) = None"
    by (simp add: to_optional_def)
next
  fix r show "openai_generate_response r \<noteq> Propagated"
    by (simp add: openai_generate_response_def split: sum.splits)
next
  fix r show "deepseek_generate_response r \<noteq> Propagated"
    by (simp add: deepseek_generate_response_def split: sum.splits)
next
  fix r show "proxyapi_generate_response r \<noteq> Propagated"
    by (simp add: proxyapi_generate_response_def split: sum.splits)
next
  fix r e assume "completion_try r = Inl e"
  then show "openai_generate_response r = Result (Inl (completion_except e))"
    by (simp add: openai_generate_response_def)
next
  fix r e assume "completion_try r = Inl e"
  then show "deepseek_generate_response r = Result (Inl (completion_except e))"
    by (simp add: deepseek_generate_response_def)
next
  fix r e assume "completion_try r = Inl e"
  then show "proxyapi_generate_response r = Result (Inl (completion_except e))"
    by (simp add: proxyapi_generate_response_def)
next
  fix r e show "to_optional (Inl (completion_except e) :: failure + string option) = None"
    by (simp add: to_optional_def)
next
  fix str_of client env t0 e assume "genapi_try str_of client env t0 = Some (Inl e)"
  then show "genapi_generate_response str_of client env t0 = Some (Inl (genapi_except e))"
    by (simp add: genapi_generate_response_def)
next
  fix e show "to_optional (Inl (genapi_except e) :: failure + string) = None"
    by (simp add: to_optional_def)
next
  fix str_of client env t0
  assume "\<forall>i. 0 < poll_interval (client :: GenAPIClient) + int (get_latency (env :: genapi_env) i)"
  then show "\<exists>r. genapi_generate_response str_of client env t0 = Some r"
    by (rule genapi_returns)
qed


text \<open>
  An HTTP 500, a timeout and a body that is a list for Ollama; a rate limit, an empty
  list of choices and a rejected key for the three completion clients; a timeout and
  an undecodable body for GenAPI.
\<close>

theorem client_failures_become_none_witness:
  "ollama_generate_response (PostResponse 500 None) = Result (Inl ApiError)
   \<and> ollama_generate_response (PostRaises PostTimeout) = Result (Inl Timeout)
   \<and> ollama_generate_response (PostResponse 200 (Some (JList []))) = Result (Inl UnexpectedError)
   \<and> openai_generate_response (CreateRaises RateLimitError) = Result (Inl RateLimited)
   \<and> deepseek_generate_response (Completion []) = Result (Inl UnexpectedError)
   \<and> proxyapi_generate_response (CreateRaises AuthenticationError) = Result (Inl AuthFailure)
   \<and> genapi_generate_response (\<lambda>x. []) \<lparr>poll_interval = 2, poll_max_wait = 120\<rparr>
        \<lparr>post_result = Raises TimeoutException, post_latency = 60,
         get_result = (\<lambda>rid i. Raises RequestError), get_latency = (\<lambda>i. 1)\<rparr> 0 = Some (Inl Timeout)
   \<and> genapi_generate_response (\<lambda>x. []) \<lparr>poll_interval = 2, poll_max_wait = 120\<rparr>
        \<lparr>post_result = Response 200 None, post_latency = 1,
         get_result = (\<lambda>rid i. Raises RequestError), get_latency = (\<lambda>i. 1)\<rparr> 0 = Some (Inl UnexpectedError)"
proof -
  have t1: "ollama_try (PostResponse 500 None) = Inl (RequestsHTTPError, True, False)"
    and t2: "ollama_try (PostRaises PostTimeout) = Inl (RequestsTimeout, False, False)"
    and t3: "ollama_try (PostResponse 200 (Some (JList []))) = Inl (OtherError, True, True)"
    by (simp_all add: ollama_try_def)
  have t4: "completion_try (CreateRaises RateLimitError) = Inl RateLimitError"
    and t5: "completion_try (Completion []) = Inl OtherCreateError"
    and t6: "completion_try (CreateRaises AuthenticationError) = Inl AuthenticationError"
    by (simp_all add: completion_try_def)
  have t7: "genapi_try (\<lambda>x. []) \<lparr>poll_interval = 2, poll_max_wait = 120\<rparr>
        \<lparr>post_result = Raises TimeoutException, post_latency = 60,
         get_result = (\<lambda>rid i. Raises RequestError), get_latency = (\<lambda>i. 1)\<rparr> 0 = Some (Inl TimeoutException)"
    and t8: "genapi_try (\<lambda>x. []) \<lparr>poll_interval = 2, poll_max_wait = 120\<rparr>
        \<lparr>post_result = Response 200 None, post_latency = 1,
         get_result = (\<lambda>rid i. Raises RequestError), get_latency = (\<lambda>i. 1)\<rparr> 0 = Some (Inl OtherException)"
    by (simp_all add: genapi_try_def)
  have o: "ollama_generate_response (PostResponse 500 None) = Result (Inl ApiError)"
    "ollama_generate_response (PostRaises PostTimeout) = Result (Inl Timeout)"
    "ollama_generate_response (PostResponse 200 (Some (JList []))) = Result (Inl UnexpectedError)"
    by (simp_all add: ollama_generate_response_def t1 t2 t3)
  from client_failures_become_none have c: "\<forall>r e. completion_try r = Inl e \<longrightarrow>
         openai_generate_response r = Result (Inl (completion_except e))
         \<and> deepseek_generate_response r = Result (Inl (completion_except e))
         \<and> proxyapi_generate_response r = Result (Inl (completion_except e))"
    and g: "\<forall>str_of client env t0 e. genapi_try str_of client env t0 = Some (Inl e) \<longrightarrow>
         genapi_generate_response str_of client env t0 = Some (Inl (genapi_except e))"
    by blast+
  from c t4 t5 t6 have "openai_generate_response (CreateRaises RateLimitError) = Result (Inl RateLimited)"
    "deepseek_generate_response (Completion []) = Result (Inl UnexpectedError)"
    "proxyapi_generate_response (CreateRaises AuthenticationError) = Result (Inl AuthFailure)"
    by fastforce+
  moreover from g t7 t8 have "genapi_generate_response (\<lambda>x. []) \<lparr>poll_interval = 2, poll_max_wait = 120\<rparr>
        \<lparr>post_result = Raises TimeoutException, post_latency = 60,
         get_result = (\<lambda>rid i. Raises RequestError), get_latency = (\<lambda>i. 1)\<rparr> 0 = Some (Inl Timeout)"
     "genapi_generate_response (\<lambda>x. []) \<lparr>poll_interval = 2, poll_max_wait = 120\<rparr>
        \<lparr>post_result = Response 200 None, post_latency = 1,
         get_result = (\<lambda>rid i. Raises RequestError), get_latency = (\<lambda>i. 1)\<rparr> 0 = Some (Inl UnexpectedError)"
    by fastforce+
  ultimately show ?thesis using o by simp
qed

end
